theory Spec2Isabelle
  imports Complex_Main "HOL-Library.Log_Nat"
begin

section \<open>Compartmental epidemic models: SIR and SEIRDS\<close>

text \<open>
  The two scripts \<^verbatim>\<open>sir-basic-model.py\<close> and \<^verbatim>\<open>seirds-epidemiology-model.py\<close> each
  consist of a derivative function (the rate model), a model function that hands the rate
  model, an initial state and a time grid to \<^verbatim>\<open>scipy.integrate.odeint\<close>, and a scenario.

  The rate models are embedded twice. In the first embedding numbers are exact reals:
  \<^verbatim>\<open>+\<close>, \<^verbatim>\<open>-\<close>, \<^verbatim>\<open>*\<close> are the field operations and \<^verbatim>\<open>/\<close> is Python's true division,
  which raises \<^verbatim>\<open>ZeroDivisionError\<close> on a zero divisor; this embedding says which formulas
  the code evaluates. The second embedding (suffix \<open>_f64\<close>) computes in IEEE 754 binary64
  with the non-stop arithmetic of numpy, which is what the functions run on when
  \<^verbatim>\<open>odeint\<close> calls them. The state vector \<^verbatim>\<open>y\<close> is a sequence of numbers, modelled as a
  list; unpacking it into the wrong number of names raises \<^verbatim>\<open>ValueError\<close>.
\<close>

subsection \<open>Errors and division\<close>

datatype error = ZeroDivisionError | ValueError

definition truediv :: "real \<Rightarrow> real \<Rightarrow> error + real" where
  "truediv a b = (if b = 0 then Inl ZeroDivisionError else Inr (a / b))"

subsection \<open>Rate models\<close>

text \<open>
  \<^verbatim>\<open>
  def SIR_derivatives(y, t, N, beta, gamma):
      S, I, R = y
      dS = -beta * S * I / N
      dI = beta * S * I / N - gamma * I
      dR = gamma * I
      return dS, dI, dR
  \<close>
\<close>

fun SIR_derivatives :: "real list \<Rightarrow> real \<Rightarrow> real \<Rightarrow> real \<Rightarrow> real \<Rightarrow> error + real list" where
  "SIR_derivatives [S, I, R] t N beta gamma =
     (case truediv (- beta * S * I) N of
        Inl e \<Rightarrow> Inl e
      | Inr dS \<Rightarrow>
          (case truediv (beta * S * I) N of
             Inl e \<Rightarrow> Inl e
           | Inr q \<Rightarrow>
               (let dI = q - gamma * I;
                    dR = gamma * I
                in Inr [dS, dI, dR])))"
| "SIR_derivatives y t N beta gamma = Inl ValueError"

text \<open>
  \<^verbatim>\<open>
  def SEIRDS_derivatives(y, t, N, beta, gamma, delta, sigma):
      S, E, I, R, D = y
      dS = -beta * S * I / N
      dE = (beta * S * I / N) - sigma * E
      dI = (sigma * E) - ((gamma + delta) * I)
      dR = gamma * I
      dD = delta * I
      return dS, dE, dI, dR, dD
  \<close>
\<close>

fun SEIRDS_derivatives ::
  "real list \<Rightarrow> real \<Rightarrow> real \<Rightarrow> real \<Rightarrow> real \<Rightarrow> real \<Rightarrow> real \<Rightarrow> error + real list" where
  "SEIRDS_derivatives [S, E, I, R, D] t N beta gamma delta sigma =
     (case truediv (- beta * S * I) N of
        Inl e \<Rightarrow> Inl e
      | Inr dS \<Rightarrow>
          (case truediv (beta * S * I) N of
             Inl e \<Rightarrow> Inl e
           | Inr q \<Rightarrow>
               (let dE = q - sigma * E;
                    dI = (sigma * E) - ((gamma + delta) * I);
                    dR = gamma * I;
                    dD = delta * I
                in Inr [dS, dE, dI, dR, dD])))"
| "SEIRDS_derivatives y t N beta gamma delta sigma = Inl ValueError"

subsection \<open>Binary64 arithmetic\<close>

text \<open>
  A binary64 value is a finite real (one that the format represents), an infinity or NaN.
  Zero carries no sign here: the sign of a zero is only observable by a division by
  that zero, and the one divisor of the rate models is the argument \<^verbatim>\<open>N\<close>, whose zero is
  taken as \<^verbatim>\<open>+0.0\<close>.
\<close>

datatype float64 = Finite real | PosInf | NegInf | NaN

definition is_finite :: "float64 \<Rightarrow> bool" where
  "is_finite x = (case x of Finite v \<Rightarrow> True | _ \<Rightarrow> False)"

text \<open>
  Rounding to nearest, ties to even, with 53 significant bits, gradual underflow below
  \<open>2 ^ - 1022\<close> and overflow to an infinity from \<open>2 ^ 1024\<close> on. \<open>binade x\<close> is the exponent
  \<open>e\<close> with \<open>2 ^ e \<le> \<bar>x\<bar> < 2 ^ (e + 1)\<close>. A decimal literal of the scripts such as
  \<^verbatim>\<open>0.24\<close> denotes \<open>round64 (24 / 100)\<close>.
\<close>

definition pow2 :: "int \<Rightarrow> real" where
  "pow2 e = (if 0 \<le> e then 2 ^ nat e else 1 / 2 ^ nat (- e))"

definition binade :: "real \<Rightarrow> int" where
  "binade x =
     (let a = \<bar>x\<bar> in
      if 1 \<le> a then bitlen \<lfloor>a\<rfloor> - 1
      else (let b = bitlen \<lfloor>1 / a\<rfloor> in if pow2 (1 - b) \<le> a then 1 - b else - b))"

definition round_half_even :: "real \<Rightarrow> int" where
  "round_half_even r =
     (let f = \<lfloor>r\<rfloor>; d = r - of_int f in
      if d < 1 / 2 then f
      else if 1 / 2 < d then f + 1
      else if even f then f else f + 1)"

definition round64 :: "real \<Rightarrow> float64" where
  "round64 x =
     (if x = 0 then Finite 0
      else
        (let e = max (binade x) (- 1022);
             u = pow2 (e - 52);
             r = of_int (round_half_even (x / u)) * u
         in if pow2 1024 \<le> r then PosInf
            else if r \<le> - pow2 1024 then NegInf
            else Finite r))"

text \<open>
  The operations never raise: an overflow gives an infinity, an undefined result gives
  NaN, and a finite non-zero value divided by zero gives an infinity (numpy reports these
  by a warning only).
\<close>

fun f_neg :: "float64 \<Rightarrow> float64" where
  "f_neg (Finite x) = Finite (- x)"
| "f_neg PosInf = NegInf"
| "f_neg NegInf = PosInf"
| "f_neg NaN = NaN"

fun f_add :: "float64 \<Rightarrow> float64 \<Rightarrow> float64" where
  "f_add NaN b = NaN"
| "f_add a NaN = NaN"
| "f_add (Finite x) (Finite y) = round64 (x + y)"
| "f_add PosInf NegInf = NaN"
| "f_add NegInf PosInf = NaN"
| "f_add PosInf b = PosInf"
| "f_add NegInf b = NegInf"
| "f_add (Finite x) b = b"

definition f_sub :: "float64 \<Rightarrow> float64 \<Rightarrow> float64" where
  "f_sub a b = f_add a (f_neg b)"

definition inf_of_sign :: "bool \<Rightarrow> float64" where
  "inf_of_sign negative = (if negative then NegInf else PosInf)"

fun f_mul :: "float64 \<Rightarrow> float64 \<Rightarrow> float64" where
  "f_mul NaN b = NaN"
| "f_mul a NaN = NaN"
| "f_mul (Finite x) (Finite y) = round64 (x * y)"
| "f_mul (Finite x) PosInf = (if x = 0 then NaN else inf_of_sign (x < 0))"
| "f_mul (Finite x) NegInf = (if x = 0 then NaN else inf_of_sign (0 < x))"
| "f_mul PosInf (Finite y) = (if y = 0 then NaN else inf_of_sign (y < 0))"
| "f_mul NegInf (Finite y) = (if y = 0 then NaN else inf_of_sign (0 < y))"
| "f_mul PosInf PosInf = PosInf"
| "f_mul PosInf NegInf = NegInf"
| "f_mul NegInf PosInf = NegInf"
| "f_mul NegInf NegInf = PosInf"

fun f_div :: "float64 \<Rightarrow> float64 \<Rightarrow> float64" where
  "f_div NaN b = NaN"
| "f_div a NaN = NaN"
| "f_div (Finite x) (Finite y) =
     (if y = 0 then (if x = 0 then NaN else inf_of_sign (x < 0)) else round64 (x / y))"
| "f_div (Finite x) b = Finite 0"
| "f_div PosInf (Finite y) = inf_of_sign (y < 0)"
| "f_div NegInf (Finite y) = inf_of_sign (0 \<le> y)"
| "f_div a b = NaN"

text \<open>
  Python's built-in \<^verbatim>\<open>sum\<close> on a sequence of floats: from \<^verbatim>\<open>0\<close>, left to right.
\<close>

definition sum64 :: "float64 list \<Rightarrow> float64" where
  "sum64 xs = foldl f_add (Finite 0) xs"

subsection \<open>Rate models in binary64\<close>

text \<open>
  The same two functions as above, every operation of the source replaced by its
  binary64 counterpart in the order in which Python evaluates it.
\<close>

fun SIR_derivatives_f64 ::
  "float64 list \<Rightarrow> float64 \<Rightarrow> float64 \<Rightarrow> float64 \<Rightarrow> float64 \<Rightarrow> error + float64 list" where
  "SIR_derivatives_f64 [S, I, R] t N beta gamma =
     (let dS = f_div (f_mul (f_mul (f_neg beta) S) I) N;
          dI = f_sub (f_div (f_mul (f_mul beta S) I) N) (f_mul gamma I);
          dR = f_mul gamma I
      in Inr [dS, dI, dR])"
| "SIR_derivatives_f64 y t N beta gamma = Inl ValueError"

fun SEIRDS_derivatives_f64 ::
  "float64 list \<Rightarrow> float64 \<Rightarrow> float64 \<Rightarrow> float64 \<Rightarrow> float64 \<Rightarrow> float64 \<Rightarrow> float64
     \<Rightarrow> error + float64 list" where
  "SEIRDS_derivatives_f64 [S, E, I, R, D] t N beta gamma delta sigma =
     (let dS = f_div (f_mul (f_mul (f_neg beta) S) I) N;
          dE = f_sub (f_div (f_mul (f_mul beta S) I) N) (f_mul sigma E);
          dI = f_sub (f_mul sigma E) (f_mul (f_add gamma delta) I);
          dR = f_mul gamma I;
          dD = f_mul delta I
      in Inr [dS, dE, dI, dR, dD])"
| "SEIRDS_derivatives_f64 y t N beta gamma delta sigma = Inl ValueError"

subsection \<open>Simulation engines\<close>

text \<open>
  Both model functions end in a call of \<^verbatim>\<open>scipy.integrate.odeint\<close>, which belongs to a
  library and not to the scripts. The integrator is therefore an argument of the embedded
  model functions: it receives the right-hand side, the initial state and the time grid,
  and returns the result table (one row per reported time point) or the exception that
  ended the call.
\<close>

type_synonym rhs = "real list \<Rightarrow> real \<Rightarrow> error + real list"

type_synonym integrator = "rhs \<Rightarrow> real list \<Rightarrow> real list \<Rightarrow> error + real list list"

text \<open>
  \<^verbatim>\<open>
  def SIR_model(N,S0,I0,R0,beta,gamma,ts):
      y0 = S0, I0, R0
      return odeint(SIR_derivatives, y0, ts, args=(N, beta, gamma))
  \<close>
\<close>

definition SIR_model ::
  "integrator \<Rightarrow> real \<Rightarrow> real \<Rightarrow> real \<Rightarrow> real \<Rightarrow> real \<Rightarrow> real \<Rightarrow> real list
     \<Rightarrow> error + real list list" where
  "SIR_model odeint N S0 I0 R0 beta gamma ts =
     (let y0 = [S0, I0, R0]
      in odeint (\<lambda>y t. SIR_derivatives y t N beta gamma) y0 ts)"

text \<open>
  \<^verbatim>\<open>
  def SEIRDS_model(N,I0,E0,R0,D0,beta,gamma,delta,sigma,ts):
      S0 = N - I0 - E0 - R0 - D0
      y0 = S0, E0, I0, R0, D0
      return odeint(SEIRDS_derivatives, y0, ts, args=(N,beta,gamma,delta,sigma))
  \<close>
\<close>

definition SEIRDS_model ::
  "integrator \<Rightarrow> real \<Rightarrow> real \<Rightarrow> real \<Rightarrow> real \<Rightarrow> real \<Rightarrow> real \<Rightarrow> real \<Rightarrow> real \<Rightarrow> real
     \<Rightarrow> real list \<Rightarrow> error + real list list" where
  "SEIRDS_model odeint N I0 E0 R0 D0 beta gamma delta sigma ts =
     (let S0 = N - I0 - E0 - R0 - D0;
          y0 = [S0, E0, I0, R0, D0]
      in odeint (\<lambda>y t. SEIRDS_derivatives y t N beta gamma delta sigma) y0 ts)"

subsection \<open>The scenarios of the two scripts\<close>

text \<open>
  The module-level assignments of \<^verbatim>\<open>sir-basic-model.py\<close>; the names carry the suffix
  \<open>_sir\<close> because both scripts use \<^verbatim>\<open>N\<close>, \<^verbatim>\<open>I0\<close>, \<^verbatim>\<open>R0\<close>, \<^verbatim>\<open>beta\<close> and \<^verbatim>\<open>gamma\<close>.
  \<^verbatim>\<open>
  N = 1000
  I0 = 1
  R0 = 0
  S0 = N - I0 - R0
  beta = 0.2
  gamma = 1/10
  \<close>
\<close>

definition N_sir :: real where "N_sir = 1000"
definition I0_sir :: real where "I0_sir = 1"
definition R0_sir :: real where "R0_sir = 0"
definition S0_sir :: real where "S0_sir = N_sir - I0_sir - R0_sir"
definition beta_sir :: real where "beta_sir = 2 / 10"
definition gamma_sir :: real where "gamma_sir = 1 / 10"

text \<open>
  The module-level assignments of \<^verbatim>\<open>seirds-epidemiology-model.py\<close>.
  \<^verbatim>\<open>
  N = 100000
  I0 = 100
  R0 = 20
  E0 = 0
  D0 = 0
  beta = 0.24
  delta = 0.005
  gamma = 0.10
  sigma = 0.4
  \<close>
\<close>

definition N_seirds :: real where "N_seirds = 100000"
definition I0_seirds :: real where "I0_seirds = 100"
definition R0_seirds :: real where "R0_seirds = 20"
definition E0_seirds :: real where "E0_seirds = 0"
definition D0_seirds :: real where "D0_seirds = 0"
definition beta_seirds :: real where "beta_seirds = 24 / 100"
definition delta_seirds :: real where "delta_seirds = 5 / 1000"
definition gamma_seirds :: real where "gamma_seirds = 10 / 100"
definition sigma_seirds :: real where "sigma_seirds = 4 / 10"

subsection \<open>What the engines rely on in the integrator\<close>

text \<open>
  Modelled from the spec: \<^verbatim>\<open>odeint\<close> itself is library code outside the scripts. The
  specification describes its result as a table with one row per time-grid point, in which
  row 0 is the boundary condition and is not computed by the solver, and whose columns are
  the compartments of the state vector.
\<close>

definition reports_on_grid :: "integrator \<Rightarrow> bool" where
  "reports_on_grid odeint \<longleftrightarrow>
     (\<forall>f y0 ts tbl. odeint f y0 ts = Inr tbl \<longrightarrow>
        length tbl = length ts \<and>
        (ts \<noteq> [] \<longrightarrow> tbl ! 0 = y0) \<and>
        (\<forall>row \<in> set tbl. length row = length y0))"

text \<open>
  Modelled from the spec: \<^verbatim>\<open>odeint\<close> itself is library code outside the scripts. The
  specification expects a run whose derivatives are zero for all \<open>t\<close> to give a constant
  table; for the integrator this says that a state at which the right-hand side vanishes
  at every time is reported unchanged at every grid point.
\<close>

definition keeps_equilibrium :: "integrator \<Rightarrow> bool" where
  "keeps_equilibrium odeint \<longleftrightarrow>
     (\<forall>f y0 ts. (\<forall>t. f y0 t = Inr (replicate (length y0) 0)) \<longrightarrow>
        odeint f y0 ts = Inr (replicate (length ts) y0))"


subsection \<open>A reference integrator\<close>

text \<open>
  The explicit Euler method on the time grid, one step per grid interval. It is the
  simplest integrator with the interface above and serves as the concrete instance
  wherever a statement about the engines is evaluated. An exception of the right-hand
  side ends the run, and a derivative vector of the wrong length is a \<^verbatim>\<open>ValueError\<close>.
\<close>

definition euler_step :: "real list \<Rightarrow> real \<Rightarrow> real list \<Rightarrow> error + real list" where
  "euler_step y h dy =
     (if length dy = length y then Inr (map2 (\<lambda>a d. a + h * d) y dy) else Inl ValueError)"

fun euler_from :: "rhs \<Rightarrow> real list \<Rightarrow> real \<Rightarrow> real list \<Rightarrow> error + real list list" where
  "euler_from f y t [] = Inr []"
| "euler_from f y t (t' # ts) =
     (case f y t of
        Inl e \<Rightarrow> Inl e
      | Inr dy \<Rightarrow>
          (case euler_step y (t' - t) dy of
             Inl e \<Rightarrow> Inl e
           | Inr y' \<Rightarrow>
               (case euler_from f y' t' ts of
                  Inl e \<Rightarrow> Inl e
                | Inr rows \<Rightarrow> Inr (y' # rows))))"

fun euler_odeint :: integrator where
  "euler_odeint f y0 [] = Inr []"
| "euler_odeint f y0 (t0 # ts) =
     (case euler_from f y0 t0 ts of
        Inl e \<Rightarrow> Inl e
      | Inr rows \<Rightarrow> Inr (y0 # rows))"

section \<open>The rate equations\<close>

text \<open>
  C1. For every state \<open>(S, I, R)\<close>, every time \<open>t\<close>, every \<open>N > 0\<close> and all parameters,
  the SIR rate model returns exactly the triple
  \<open>(- beta S I / N, beta S I / N - gamma I, gamma I)\<close>. The model is a function of its
  arguments only, so it has no side effects.
\<close>

theorem SIR_derivatives_equations:
  assumes "0 < N"
  shows "SIR_derivatives [S, I, R] t N beta gamma =
           Inr [- (beta * S * I / N), beta * S * I / N - gamma * I, gamma * I]"
  using assms by (simp add: truediv_def)

theorem SIR_derivatives_equations_witness:
  "(0::real) < 1000 \<and>
   SIR_derivatives [999, 1, 0] 0 1000 (1/5) (1/10) = Inr [- (999/5000), 999/5000 - 1/10, 1/10]"
  using SIR_derivatives_equations [of 1000 999 1 0 0 "1/5" "1/10"] by simp

text \<open>
  C2. For every state \<open>(S, E, I, R, D)\<close>, every time, every \<open>N > 0\<close> and all parameters,
  the SEIRDS rate model returns exactly
  \<open>(- beta S I / N, beta S I / N - sigma E, sigma E - (gamma + delta) I, gamma I, delta I)\<close>.
  No component has a term that moves Recovered back to Susceptible: the Susceptible rate
  does not mention \<open>R\<close>, and the Recovered rate is the inflow \<open>gamma I\<close> alone.
\<close>

theorem SEIRDS_derivatives_equations:
  assumes "0 < N"
  shows "SEIRDS_derivatives [S, E, I, R, D] t N beta gamma delta sigma =
           Inr [- (beta * S * I / N),
                beta * S * I / N - sigma * E,
                sigma * E - (gamma + delta) * I,
                gamma * I,
                delta * I]"
  using assms by (simp add: truediv_def)

theorem SEIRDS_derivatives_equations_witness:
  "(0::real) < 100000 \<and>
   SEIRDS_derivatives [99880, 0, 100, 20, 0] 0 100000 (24/100) (1/10) (5/1000) (4/10) =
     Inr [- (14982/625), 14982/625, - (21/2), 10, 1/2]"
  using SEIRDS_derivatives_equations [of 100000 99880 0 100 20 0 0 "24/100" "1/10" "5/1000" "4/10"]
  by simp

section \<open>Evaluating binary64 arithmetic\<close>

lemmas float64_eval = round64_def binade_def pow2_def Let_def compute_bitlen round_half_even_def
  f_sub_def inf_of_sign_def sum64_def is_finite_def

lemma f_div_zero_not_finite: "\<not> is_finite (f_div a (Finite 0))"
  by (cases a) (simp_all add: is_finite_def inf_of_sign_def)

lemma f_sub_not_finite: "\<not> is_finite a \<Longrightarrow> \<not> is_finite (f_sub a b)"
  by (cases a; cases b) (simp_all add: is_finite_def f_sub_def)

section \<open>Conservation of the rates\<close>

text \<open>
  C3, as the specification states it, says that the derivatives returned by the rate models
  sum to exactly zero. The values the code returns are binary64 numbers, and they do not:
  at the state and the parameters of the SEIRDS script the five returned derivatives add
  up to \<open>- 2 ^ - 49\<close>, both exactly and when added as floats, and for SIR at \<open>S = 9\<close>,
  \<open>I = 7\<close>, \<open>N = 1000\<close>, \<open>beta = 0.2\<close>, \<open>gamma = 0.1\<close> the three returned derivatives add up
  to \<open>2 ^ - 54\<close> exactly and to \<open>2 ^ - 53\<close> when added as floats.
\<close>

theorem derivatives_sum_binary64_counterexample:
  "SEIRDS_derivatives_f64 [Finite 99880, Finite 0, Finite 100, Finite 20, Finite 0] (Finite 0)
     (Finite 100000) (round64 (24/100)) (round64 (10/100)) (round64 (5/1000)) (round64 (4/10)) =
     Inr [Finite (- (6747292961726477/281474976710656)),
          Finite (6747292961726477/281474976710656),
          Finite (- (5910974510923777/562949953421312)), Finite 10, Finite (1/2)] \<and>
   (- (6747292961726477/281474976710656) + 6747292961726477/281474976710656
      + - (5910974510923777/562949953421312) + 10 + 1/2 :: real) = - (1 / 2 ^ 49) \<and>
   sum64 [Finite (- (6747292961726477/281474976710656)),
          Finite (6747292961726477/281474976710656),
          Finite (- (5910974510923777/562949953421312)), Finite 10, Finite (1/2)] =
     Finite (- (1 / 2 ^ 49)) \<and>
   SIR_derivatives_f64 [Finite 9, Finite 7, Finite 0] (Finite 0) (Finite 1000)
     (round64 (2/10)) (round64 (1/10)) =
     Inr [Finite (- (226981421219473/18014398509481984)),
          Finite (- (3095774383854479/4503599627370496)),
          Finite (6305039478318695/9007199254740992)] \<and>
   (- (226981421219473/18014398509481984) + - (3095774383854479/4503599627370496)
      + 6305039478318695/9007199254740992 :: real) = 1 / 2 ^ 54 \<and>
   sum64 [Finite (- (226981421219473/18014398509481984)),
          Finite (- (3095774383854479/4503599627370496)),
          Finite (6305039478318695/9007199254740992)] = Finite (1 / 2 ^ 53)"
  by (simp add: float64_eval)

text \<open>
  C3, amended. The formulas that the rate models evaluate cancel: for any state, any time,
  any \<open>N > 0\<close> and any parameters, evaluated over the real numbers the SIR model returns
  three derivatives with \<open>dS = - beta S I / N\<close>, \<open>dR = gamma I\<close> and \<open>dS + dI + dR = 0\<close>, and
  the SEIRDS model returns five derivatives with \<open>dS = - beta S I / N\<close>,
  \<open>dE = beta S I / N - sigma E\<close>, \<open>dR = gamma I\<close>, \<open>dD = delta I\<close> and
  \<open>dS + dE + dI + dR + dD = 0\<close>. The binary64 values that the code returns sum to zero
  only up to rounding.
\<close>

theorem derivative_formulas_sum_zero:
  assumes "0 < N"
  shows "(\<exists>dS dI dR. SIR_derivatives [S, I, R] t N beta gamma = Inr [dS, dI, dR] \<and>
            dS = - (beta * S * I / N) \<and> dR = gamma * I \<and> dS + dI + dR = 0) \<and>
         (\<exists>dS dE dI dR dD.
            SEIRDS_derivatives [S, E, I, R, D] t N beta gamma delta sigma =
              Inr [dS, dE, dI, dR, dD] \<and>
            dS = - (beta * S * I / N) \<and> dE = beta * S * I / N - sigma * E \<and>
            dR = gamma * I \<and> dD = delta * I \<and> dS + dE + dI + dR + dD = 0)"
proof
  show "\<exists>dS dI dR. SIR_derivatives [S, I, R] t N beta gamma = Inr [dS, dI, dR] \<and>
          dS = - (beta * S * I / N) \<and> dR = gamma * I \<and> dS + dI + dR = 0"
    using assms by (simp add: truediv_def)
next
  have "- (beta * S * I / N) + (beta * S * I / N - sigma * E) +
          (sigma * E - (gamma + delta) * I) + gamma * I + delta * I = 0"
    by (simp add: algebra_simps)
  then show "\<exists>dS dE dI dR dD.
          SEIRDS_derivatives [S, E, I, R, D] t N beta gamma delta sigma =
            Inr [dS, dE, dI, dR, dD] \<and>
          dS = - (beta * S * I / N) \<and> dE = beta * S * I / N - sigma * E \<and>
          dR = gamma * I \<and> dD = delta * I \<and> dS + dE + dI + dR + dD = 0"
    using assms by (simp add: truediv_def)
qed

theorem derivative_formulas_sum_zero_witness:
  "(0::real) < 100000 \<and>
   SIR_derivatives [9, 7, 0] 0 100000 (24/100) (1/10) =
     Inr [- (189/1250000), - (874811/1250000), 7/10] \<and>
   (- (189/1250000) + - (874811/1250000) + 7/10 :: real) = 0 \<and>
   SEIRDS_derivatives [9, 0, 7, 20, 0] 0 100000 (24/100) (1/10) (5/1000) (4/10) =
     Inr [- (189/1250000), 189/1250000, - (147/200), 7/10, 7/200] \<and>
   (- (189/1250000) + 189/1250000 + - (147/200) + 7/10 + 7/200 :: real) = 0"
  using derivative_formulas_sum_zero [where N = 100000 and S = 9 and I = 7 and R = 20
      and t = 0 and beta = "24/100" and gamma = "1/10" and E = 0 and D = 0
      and delta = "5/1000" and sigma = "4/10"]
  by (simp add: truediv_def)

section \<open>Totality and independence of the rate models\<close>

text \<open>
  C9, as the specification states it, says that for \<open>N = 0\<close> the rate models fail with a
  domain error instead of returning a value. On the binary64 state that \<^verbatim>\<open>odeint\<close> hands
  to them they return a value: at the initial state of the SIR script with \<open>N = 0\<close> the
  result is \<open>(-inf, inf, 0.1)\<close>, and at the initial state of the SEIRDS script with
  \<open>N = 0\<close> it is \<open>(-inf, inf, -10.500000000000002, 10.0, 0.5)\<close>.
\<close>

theorem zero_population_counterexample:
  "SIR_derivatives_f64 [Finite 999, Finite 1, Finite 0] (Finite 0) (Finite 0)
     (round64 (2/10)) (round64 (1/10)) =
     Inr [NegInf, PosInf, Finite (3602879701896397/36028797018963968)] \<and>
   SEIRDS_derivatives_f64 [Finite 99880, Finite 0, Finite 100, Finite 20, Finite 0] (Finite 0)
     (Finite 0) (round64 (24/100)) (round64 (10/100)) (round64 (5/1000)) (round64 (4/10)) =
     Inr [NegInf, PosInf, Finite (- (5910974510923777/562949953421312)), Finite 10,
          Finite (1/2)]"
  by (simp add: float64_eval)

text \<open>
  C9, amended. On the binary64 state that \<^verbatim>\<open>odeint\<close> hands to them, the rate models are
  total: for every \<open>N\<close>, and so for every \<open>N > 0\<close>, and any state, time and parameters both
  derivative functions return a derivative vector (of 3 and of 5 components) and raise
  nothing. For \<open>N = 0\<close> they do not fail either: they return a vector in which the two
  components that divide by \<open>N\<close> are infinite or NaN.
\<close>

theorem derivatives_f64_total:
  "(\<exists>dS dI dR. SIR_derivatives_f64 [S, I, R] t N beta gamma = Inr [dS, dI, dR] \<and>
      dS = f_div (f_mul (f_mul (f_neg beta) S) I) N \<and> dR = f_mul gamma I \<and>
      (N = Finite 0 \<longrightarrow> \<not> is_finite dS \<and> \<not> is_finite dI)) \<and>
   (\<exists>dS dE dI dR dD.
      SEIRDS_derivatives_f64 [S, E, I, R, D] t N beta gamma delta sigma =
        Inr [dS, dE, dI, dR, dD] \<and>
      dS = f_div (f_mul (f_mul (f_neg beta) S) I) N \<and> dR = f_mul gamma I \<and>
      dD = f_mul delta I \<and>
      (N = Finite 0 \<longrightarrow> \<not> is_finite dS \<and> \<not> is_finite dE))"
  by (simp add: Let_def f_div_zero_not_finite f_sub_not_finite)

theorem derivatives_f64_total_witness:
  "SIR_derivatives_f64 [Finite 9, Finite 7, Finite 0] (Finite 0) (Finite 0)
     (round64 (2/10)) (round64 (1/10)) =
     Inr [NegInf, PosInf, Finite (6305039478318695/9007199254740992)] \<and>
   \<not> is_finite NegInf \<and> \<not> is_finite PosInf \<and>
   SEIRDS_derivatives_f64 [Finite 9, Finite 0, Finite 7, Finite 0, Finite 0] (Finite 0)
     (Finite 0) (round64 (2/10)) (round64 (1/10)) (round64 (5/1000)) (round64 (4/10)) =
     Inr [NegInf, PosInf, Finite (- (3310145726117315/4503599627370496)),
          Finite (6305039478318695/9007199254740992),
          Finite (1261007895663739/36028797018963968)]"
  using derivatives_f64_total [where S = "Finite 9" and I = "Finite 7" and R = "Finite 0"
      and t = "Finite 0" and N = "Finite 0" and beta = "round64 (2/10)"
      and gamma = "round64 (1/10)" and E = "Finite 0" and D = "Finite 0"
      and delta = "round64 (5/1000)" and sigma = "round64 (4/10)"]
  by (simp add: float64_eval)

text \<open>
  C10. The derivatives do not depend on the time argument nor on the absorbing
  compartments: two calls of \<open>SIR_derivatives\<close> that agree on \<open>S\<close>, \<open>I\<close>, \<open>N\<close> and the
  parameters return the same result whatever \<open>t\<close> and \<open>R\<close> are, and two calls of
  \<open>SEIRDS_derivatives\<close> that agree on \<open>S\<close>, \<open>E\<close>, \<open>I\<close>, \<open>N\<close> and the parameters return the
  same result whatever \<open>t\<close>, \<open>R\<close> and \<open>D\<close> are.
\<close>

theorem derivatives_independent_of_time_and_sinks:
  "SIR_derivatives [S, I, R] t N beta gamma = SIR_derivatives [S, I, R'] t' N beta gamma \<and>
   SEIRDS_derivatives [S, E, I, R, D] t N beta gamma delta sigma =
     SEIRDS_derivatives [S, E, I, R', D'] t' N beta gamma delta sigma"
  by simp

theorem derivatives_independent_of_time_and_sinks_witness:
  "SIR_derivatives [880, 100, 20] 0 1000 (24/100) (1/10) =
     SIR_derivatives [880, 100, 555] 42 1000 (24/100) (1/10) \<and>
   SEIRDS_derivatives [880, 5, 100, 20, 3] 0 1000 (24/100) (1/10) (5/1000) (4/10) =
     SEIRDS_derivatives [880, 5, 100, 555, 77] 42 1000 (24/100) (1/10) (5/1000) (4/10)"
  using derivatives_independent_of_time_and_sinks [where S = 880 and I = 100 and R = 20
      and R' = 555 and t = 0 and t' = 42 and N = 1000 and beta = "24/100" and gamma = "1/10"
      and E = 5 and D = 3 and D' = 77 and delta = "5/1000" and sigma = "4/10"]
  by simp

section \<open>The reference integrator meets both contracts\<close>

lemma euler_step_length: "euler_step y h dy = Inr y' \<Longrightarrow> length y' = length y"
  by (auto simp: euler_step_def split: if_splits)

lemma euler_step_zero: "euler_step y h (replicate (length y) 0) = Inr y"
  by (simp add: euler_step_def map2_map_map[symmetric] zip_replicate2 map_idI)

lemma euler_from_length:
  "euler_from f y t ts = Inr rows \<Longrightarrow> length rows = length ts"
  by (induction ts arbitrary: y t rows) (auto split: sum.splits)

lemma euler_from_row_length:
  "euler_from f y t ts = Inr rows \<Longrightarrow> row \<in> set rows \<Longrightarrow> length row = length y"
proof (induction ts arbitrary: y t rows)
  case Nil
  then show ?case by simp
next
  case (Cons t' ts)
  from Cons.prems(1) obtain dy y' rest where
    step: "euler_step y (t' - t) dy = Inr y'" and
    rest: "euler_from f y' t' ts = Inr rest" and
    rows: "rows = y' # rest"
    by (auto split: sum.splits)
  from step have len: "length y' = length y" by (rule euler_step_length)
  from Cons.prems(2) rows have "row = y' \<or> row \<in> set rest" by simp
  then show ?case
  proof
    assume "row = y'"
    with len show ?thesis by simp
  next
    assume "row \<in> set rest"
    with Cons.IH [OF rest] len show ?thesis by simp
  qed
qed

lemma euler_from_equilibrium:
  "(\<And>t. f y t = Inr (replicate (length y) 0)) \<Longrightarrow>
   euler_from f y t ts = Inr (replicate (length ts) y)"
  by (induction ts arbitrary: t) (auto simp: euler_step_zero)

lemma euler_reports_on_grid: "reports_on_grid euler_odeint"
  unfolding reports_on_grid_def
proof (intro allI impI)
  fix f y0 ts tbl
  assume run: "euler_odeint f y0 ts = Inr tbl"
  show "length tbl = length ts \<and> (ts \<noteq> [] \<longrightarrow> tbl ! 0 = y0) \<and>
        (\<forall>row \<in> set tbl. length row = length y0)"
  proof (cases ts)
    case Nil
    with run show ?thesis by simp
  next
    case (Cons t0 ts')
    with run obtain rows where rows: "euler_from f y0 t0 ts' = Inr rows" and tbl: "tbl = y0 # rows"
      by (auto split: sum.splits)
    from rows have "length rows = length ts'" by (rule euler_from_length)
    moreover from rows have "\<forall>row \<in> set rows. length row = length y0"
      by (blast dest: euler_from_row_length)
    ultimately show ?thesis using Cons tbl by simp
  qed
qed

lemma euler_keeps_equilibrium: "keeps_equilibrium euler_odeint"
  unfolding keeps_equilibrium_def
proof (intro allI impI)
  fix f :: rhs and y0 ts
  assume zero: "\<forall>t. f y0 t = Inr (replicate (length y0) 0)"
  show "euler_odeint f y0 ts = Inr (replicate (length ts) y0)"
  proof (cases ts)
    case Nil
    then show ?thesis by simp
  next
    case (Cons t0 ts')
    have "euler_from f y0 t0 ts' = Inr (replicate (length ts') y0)"
      using zero by (intro euler_from_equilibrium) simp
    with Cons show ?thesis by simp
  qed
qed

lemma keeps_equilibriumD:
  assumes "keeps_equilibrium odeint" and "\<And>t. f y0 t = Inr (replicate (length y0) 0)"
  shows "odeint f y0 ts = Inr (replicate (length ts) y0)"
  using assms by (simp add: keeps_equilibrium_def)

section \<open>The reference integrator conserves the total\<close>








section \<open>The initial state of a run\<close>

text \<open>
  C5, as the specification states it, says that each engine derives the initial Susceptible
  count itself as \<open>N\<close> minus the other initial counts. \<open>SIR_model\<close> does not: it takes
  \<open>S0\<close> as an argument and integrates from \<open>(S0, I0, R0)\<close>. Called with \<open>N = 1000\<close>,
  \<open>S0 = 5\<close>, \<open>I0 = 1\<close>, \<open>R0 = 0\<close>, it does not start the integrator from
  \<open>(1000 - 1 - 0, 1, 0)\<close>.
\<close>

theorem SIR_model_uses_given_S0_counterexample:
  "\<not> (\<forall>odeint. SIR_model odeint 1000 5 1 0 (1/5) (1/10) [0, 1] =
          odeint (\<lambda>y t. SIR_derivatives y t 1000 (1/5) (1/10)) [1000 - 1 - 0, 1, 0] [0, 1])"
proof
  assume "\<forall>odeint. SIR_model odeint 1000 5 1 0 (1/5) (1/10) [0, 1] =
            odeint (\<lambda>y t. SIR_derivatives y t 1000 (1/5) (1/10)) [1000 - 1 - 0, 1, 0] [0, 1]"
  then have "SIR_model (\<lambda>f y ts. Inr [y]) 1000 5 1 0 (1/5) (1/10) [0, 1] =
               (\<lambda>f y ts. Inr [y]) (\<lambda>y t. SIR_derivatives y t 1000 (1/5) (1/10))
                 [1000 - 1 - 0, 1, 0] [0, 1]"
    by (rule spec)
  then show False by (simp add: SIR_model_def)
qed

text \<open>
  C5, amended. \<open>SEIRDS_model\<close> derives the initial Susceptible count itself,
  \<open>S0 = N - (I0 + E0 + R0 + D0)\<close>, from the counts its caller supplies, and integrates from
  \<open>(S0, E0, I0, R0, D0)\<close>. \<open>SIR_model\<close> receives \<open>S0\<close> from its caller and integrates from
  \<open>(S0, I0, R0)\<close> unchanged; in the SIR script it is the caller that computes
  \<open>S0 = N - I0 - R0\<close> before the call.
\<close>

theorem initial_susceptible:
  "SEIRDS_model odeint N I0 E0 R0 D0 beta gamma delta sigma ts =
     odeint (\<lambda>y t. SEIRDS_derivatives y t N beta gamma delta sigma)
       [N - (I0 + E0 + R0 + D0), E0, I0, R0, D0] ts \<and>
   SIR_model odeint N S0 I0 R0 beta gamma ts =
     odeint (\<lambda>y t. SIR_derivatives y t N beta gamma) [S0, I0, R0] ts \<and>
   S0_sir = N_sir - (I0_sir + R0_sir)"
  by (simp add: SEIRDS_model_def SIR_model_def S0_sir_def algebra_simps)

theorem initial_susceptible_witness:
  "SEIRDS_model euler_odeint 100000 100 0 20 0 (24/100) (1/10) (5/1000) (4/10) [0, 1] =
     euler_odeint (\<lambda>y t. SEIRDS_derivatives y t 100000 (24/100) (1/10) (5/1000) (4/10))
       [99880, 0, 100, 20, 0] [0, 1] \<and>
   SIR_model euler_odeint 100000 5 100 20 (24/100) (1/10) [0, 1] =
     euler_odeint (\<lambda>y t. SIR_derivatives y t 100000 (24/100) (1/10)) [5, 100, 20] [0, 1] \<and>
   S0_sir = 999"
  using initial_susceptible [where odeint = euler_odeint and N = 100000 and ?I0.0 = 100
      and ?E0.0 = 0 and ?R0.0 = 20 and ?D0.0 = 0 and beta = "24/100" and gamma = "1/10"
      and delta = "5/1000" and sigma = "4/10" and ts = "[0, 1]" and ?S0.0 = 5]
  by (simp add: N_sir_def I0_sir_def R0_sir_def)

section \<open>The shape of the result table\<close>

text \<open>
  C6, as the specification states it, says that row 0 is the derived initial state, whose
  Susceptible count is \<open>N\<close> minus the other initial counts. For SIR it is not: with
  \<open>N = 1000\<close>, \<open>S0 = 5\<close>, \<open>I0 = 1\<close>, \<open>R0 = 0\<close> row 0 is \<open>(5, 1, 0)\<close> and not
  \<open>(1000 - 1 - 0, 1, 0)\<close>.
\<close>

theorem SIR_row0_counterexample:
  "reports_on_grid euler_odeint \<and>
   SIR_model euler_odeint 1000 5 1 0 (1/5) (1/10) [0, 1] =
     Inr [[5, 1, 0], [4999/1000, 901/1000, 1/10]] \<and>
   [[5, 1, 0], [4999/1000, 901/1000, 1/10 :: real]] ! 0 \<noteq> [1000 - 1 - 0, 1, 0]"
  using euler_reports_on_grid
  by (simp add: SIR_model_def euler_step_def truediv_def)

text \<open>
  C6, amended. For every run of either variant that returns a table, with an integrator
  that reports on the time grid, the table has exactly one row per time-grid point, row 0
  is exactly the initial state that the engine integrates from (for SEIRDS the derived
  \<open>(N - I0 - E0 - R0 - D0, E0, I0, R0, D0)\<close>; for SIR \<open>(S0, I0, R0)\<close> with the \<open>S0\<close> that the
  caller supplied, which is the derived state only when the caller passes
  \<open>S0 = N - I0 - R0\<close>), and every row has the columns of the fixed compartment order: 3 for
  SIR (S, I, R) and 5 for SEIRDS (S, E, I, R, D).
\<close>

theorem result_table_shape:
  assumes "reports_on_grid odeint"
  shows "(SIR_model odeint N S0 I0 R0 beta gamma ts = Inr tbl \<longrightarrow>
            length tbl = length ts \<and>
            (ts \<noteq> [] \<longrightarrow> tbl ! 0 = [S0, I0, R0]) \<and>
            (\<forall>row \<in> set tbl. length row = 3)) \<and>
         (SEIRDS_model odeint N I0 E0 R0 D0 beta gamma delta sigma ts = Inr tbl' \<longrightarrow>
            length tbl' = length ts \<and>
            (ts \<noteq> [] \<longrightarrow> tbl' ! 0 = [N - I0 - E0 - R0 - D0, E0, I0, R0, D0]) \<and>
            (\<forall>row \<in> set tbl'. length row = 5))"
proof (intro conjI impI)
  assume run: "SIR_model odeint N S0 I0 R0 beta gamma ts = Inr tbl"
  then have "odeint (\<lambda>y t. SIR_derivatives y t N beta gamma) [S0, I0, R0] ts = Inr tbl"
    by (simp add: SIR_model_def)
  with assms have
    "length tbl = length ts \<and> (ts \<noteq> [] \<longrightarrow> tbl ! 0 = [S0, I0, R0]) \<and>
     (\<forall>row \<in> set tbl. length row = length [S0, I0, R0])"
    unfolding reports_on_grid_def by blast
  then show "length tbl = length ts" and "ts \<noteq> [] \<Longrightarrow> tbl ! 0 = [S0, I0, R0]"
    and "\<forall>row \<in> set tbl. length row = 3"
    by simp_all
next
  assume run: "SEIRDS_model odeint N I0 E0 R0 D0 beta gamma delta sigma ts = Inr tbl'"
  then have "odeint (\<lambda>y t. SEIRDS_derivatives y t N beta gamma delta sigma)
               [N - I0 - E0 - R0 - D0, E0, I0, R0, D0] ts = Inr tbl'"
    by (simp add: SEIRDS_model_def)
  with assms have
    "length tbl' = length ts \<and>
     (ts \<noteq> [] \<longrightarrow> tbl' ! 0 = [N - I0 - E0 - R0 - D0, E0, I0, R0, D0]) \<and>
     (\<forall>row \<in> set tbl'. length row = length [N - I0 - E0 - R0 - D0, E0, I0, R0, D0])"
    unfolding reports_on_grid_def by blast
  then show "length tbl' = length ts"
    and "ts \<noteq> [] \<Longrightarrow> tbl' ! 0 = [N - I0 - E0 - R0 - D0, E0, I0, R0, D0]"
    and "\<forall>row \<in> set tbl'. length row = 5"
    by simp_all
qed

theorem result_table_shape_witness:
  "reports_on_grid euler_odeint \<and>
   SIR_model euler_odeint 1000 5 1 0 (1/5) (1/10) [0, 1] =
     Inr [[5, 1, 0], [4999/1000, 901/1000, 1/10]] \<and>
   length [[5, 1, 0], [4999/1000, 901/1000, 1/10 :: real]] = length [0, 1 :: real] \<and>
   [[5, 1, 0], [4999/1000, 901/1000, 1/10 :: real]] ! 0 = [5, 1, 0] \<and>
   SEIRDS_model euler_odeint 1000 1 0 0 0 (1/5) (1/10) (5/1000) (4/10) [0, 1] =
     Inr [[999, 0, 1, 0, 0], [4994001/5000, 999/5000, 179/200, 1/10, 1/200]] \<and>
   [[999, 0, 1, 0, 0], [4994001/5000, 999/5000, 179/200, 1/10, 1/200 :: real]] ! 0 =
     [1000 - 1 - 0 - 0 - 0, 0, 1, 0, 0]"
  using result_table_shape [OF euler_reports_on_grid, where N = 1000 and ?S0.0 = 5
      and ?I0.0 = 1 and ?R0.0 = 0 and ?E0.0 = 0 and ?D0.0 = 0 and beta = "1/5" and gamma = "1/10"
      and delta = "5/1000" and sigma = "4/10" and ts = "[0, 1]"]
    euler_reports_on_grid
  by (simp add: SIR_model_def SEIRDS_model_def euler_step_def truediv_def)

section \<open>Conservation along a run\<close>




section \<open>Validation\<close>

text \<open>
  C7, as the specification states it, says that a run with malformed inputs fails with a
  validation error before the integration starts. Neither engine checks anything: with
  \<open>N = -1000\<close>, \<open>S0 = -5\<close>, \<open>beta = -1/5\<close> and a time grid of one point, \<open>SIR_model\<close> fails
  only if the integrator does, and so does \<open>SEIRDS_model\<close> with \<open>N = 10\<close>, \<open>I0 = 20\<close> (a
  derived \<open>S0 = -10\<close>), \<open>beta = -24/100\<close> and a time grid of one point.
\<close>

theorem no_validation_counterexample:
  "\<not> (\<forall>odeint. \<exists>e. SIR_model odeint (- 1000) (- 5) 1 0 (- (1/5)) (1/10) [0] = Inl e) \<and>
   \<not> (\<forall>odeint. \<exists>e. SEIRDS_model odeint 10 20 0 0 0 (- (24/100)) (1/10) (5/1000) (4/10) [0]
          = Inl e)"
proof
  show "\<not> (\<forall>odeint. \<exists>e. SIR_model odeint (- 1000) (- 5) 1 0 (- (1/5)) (1/10) [0] = Inl e)"
  proof
    assume "\<forall>odeint. \<exists>e. SIR_model odeint (- 1000) (- 5) 1 0 (- (1/5)) (1/10) [0] = Inl e"
    then have "\<exists>e. SIR_model euler_odeint (- 1000) (- 5) 1 0 (- (1/5)) (1/10) [0] = Inl e"
      by (rule spec)
    then show False by (simp add: SIR_model_def)
  qed
next
  show "\<not> (\<forall>odeint. \<exists>e. SEIRDS_model odeint 10 20 0 0 0 (- (24/100)) (1/10) (5/1000) (4/10) [0]
          = Inl e)"
  proof
    assume "\<forall>odeint. \<exists>e.
              SEIRDS_model odeint 10 20 0 0 0 (- (24/100)) (1/10) (5/1000) (4/10) [0] = Inl e"
    then have "\<exists>e. SEIRDS_model euler_odeint 10 20 0 0 0 (- (24/100)) (1/10) (5/1000) (4/10) [0]
                 = Inl e"
      by (rule spec)
    then show False by (simp add: SEIRDS_model_def)
  qed
qed

text \<open>
  C7, amended. The engines validate nothing. Whatever the sign of \<open>N\<close>, of the initial
  counts and of the parameters, and whatever the time grid, each engine calls the
  integrator on the initial state, the time grid and the rate model: a table that the
  integrator returns is the result of the run, and a run fails only with an error that
  this call of the integrator raised.
\<close>

theorem engines_forward_to_integrator:
  "(odeint (\<lambda>y t. SIR_derivatives y t N beta gamma) [S0, I0, R0] ts = Inr tbl \<longrightarrow>
      SIR_model odeint N S0 I0 R0 beta gamma ts = Inr tbl) \<and>
   (SIR_model odeint N S0 I0 R0 beta gamma ts = Inl e \<longrightarrow>
      odeint (\<lambda>y t. SIR_derivatives y t N beta gamma) [S0, I0, R0] ts = Inl e) \<and>
   (odeint (\<lambda>y t. SEIRDS_derivatives y t N beta gamma delta sigma)
        [N - I0 - E0 - R0 - D0, E0, I0, R0, D0] ts = Inr tbl' \<longrightarrow>
      SEIRDS_model odeint N I0 E0 R0 D0 beta gamma delta sigma ts = Inr tbl') \<and>
   (SEIRDS_model odeint N I0 E0 R0 D0 beta gamma delta sigma ts = Inl e \<longrightarrow>
      odeint (\<lambda>y t. SEIRDS_derivatives y t N beta gamma delta sigma)
        [N - I0 - E0 - R0 - D0, E0, I0, R0, D0] ts = Inl e)"
  by (simp add: SIR_model_def SEIRDS_model_def)

theorem engines_forward_to_integrator_witness:
  "euler_odeint (\<lambda>y t. SIR_derivatives y t (- 1000) (- (1/5)) (1/10)) [- 5, 1, 0] [0, 1] =
     Inr [[- 5, 1, 0], [- (4999/1000), 899/1000, 1/10]] \<and>
   SIR_model euler_odeint (- 1000) (- 5) 1 0 (- (1/5)) (1/10) [0, 1] =
     Inr [[- 5, 1, 0], [- (4999/1000), 899/1000, 1/10]] \<and>
   euler_odeint (\<lambda>y t. SEIRDS_derivatives y t 10 (- (24/100)) (1/10) (5/1000) (4/10))
       [10 - 20 - 0 - 0 - 0, 0, 20, 0, 0] [0, 1] =
     Inr [[- 10, 0, 20, 0, 0], [- (74/5), 24/5, 179/10, 2, 1/10]] \<and>
   SEIRDS_model euler_odeint 10 20 0 0 0 (- (24/100)) (1/10) (5/1000) (4/10) [0, 1] =
     Inr [[- 10, 0, 20, 0, 0], [- (74/5), 24/5, 179/10, 2, 1/10]]"
proof -
  have sir: "euler_odeint (\<lambda>y t. SIR_derivatives y t (- 1000) (- (1/5)) (1/10)) [- 5, 1, 0] [0, 1] =
     Inr [[- 5, 1, 0], [- (4999/1000), 899/1000, 1/10]]"
    by (simp add: euler_step_def truediv_def)
  have seirds: "euler_odeint (\<lambda>y t. SEIRDS_derivatives y t 10 (- (24/100)) (1/10) (5/1000) (4/10))
       [10 - 20 - 0 - 0 - 0, 0, 20, 0, 0] [0, 1] =
     Inr [[- 10, 0, 20, 0, 0], [- (74/5), 24/5, 179/10, 2, 1/10]]"
    by (simp add: euler_step_def truediv_def)
  from sir seirds
    engines_forward_to_integrator [where odeint = euler_odeint and N = "- 1000" and ?S0.0 = "- 5"
      and ?I0.0 = 1 and ?R0.0 = 0 and beta = "- (1/5)" and gamma = "1/10" and ts = "[0, 1]"
      and tbl = "[[- 5, 1, 0], [- (4999/1000), 899/1000, 1/10]]"]
    engines_forward_to_integrator [where odeint = euler_odeint and N = 10 and ?I0.0 = 20
      and ?E0.0 = 0 and ?R0.0 = 0 and ?D0.0 = 0 and beta = "- (24/100)" and gamma = "1/10"
      and delta = "5/1000" and sigma = "4/10" and ts = "[0, 1]"
      and tbl' = "[[- 10, 0, 20, 0, 0], [- (74/5), 24/5, 179/10, 2, 1/10]]"]
  show ?thesis by simp
qed

section \<open>The disease-free run\<close>

text \<open>
  C8. At a state with \<open>I = 0\<close> (and \<open>E = 0\<close> for SEIRDS), for any time, any \<open>N > 0\<close> and any
  parameters, both rate models return all-zero derivatives. Consequently, with an
  integrator that reports an equilibrium of the right-hand side unchanged, a run started
  from a disease-free initial condition returns a table in which every row equals the
  initial state.
\<close>

theorem disease_free:
  assumes "0 < N"
  shows "SIR_derivatives [S, 0, R] t N beta gamma = Inr [0, 0, 0] \<and>
         SEIRDS_derivatives [S, 0, 0, R, D] t N beta gamma delta sigma = Inr [0, 0, 0, 0, 0] \<and>
         (keeps_equilibrium odeint \<longrightarrow>
            SIR_model odeint N S0 0 R0 beta gamma ts = Inr (replicate (length ts) [S0, 0, R0]) \<and>
            SEIRDS_model odeint N 0 0 R0 D0 beta gamma delta sigma ts =
              Inr (replicate (length ts) [N - 0 - 0 - R0 - D0, 0, 0, R0, D0]))"
proof (intro conjI impI)
  show "SIR_derivatives [S, 0, R] t N beta gamma = Inr [0, 0, 0]"
    using assms by (simp add: truediv_def)
  show "SEIRDS_derivatives [S, 0, 0, R, D] t N beta gamma delta sigma = Inr [0, 0, 0, 0, 0]"
    using assms by (simp add: truediv_def)
  assume eq: "keeps_equilibrium odeint"
  from assms have nz: "N \<noteq> 0" by simp
  have "odeint (\<lambda>y t. SIR_derivatives y t N beta gamma) [S0, 0, R0] ts =
          Inr (replicate (length ts) [S0, 0, R0])"
    by (rule keeps_equilibriumD [OF eq]) (simp add: truediv_def nz)
  then show "SIR_model odeint N S0 0 R0 beta gamma ts = Inr (replicate (length ts) [S0, 0, R0])"
    by (simp add: SIR_model_def)
  let ?y0 = "[N - 0 - 0 - R0 - D0, 0, 0, R0, D0]"
  have "odeint (\<lambda>y t. SEIRDS_derivatives y t N beta gamma delta sigma) ?y0 ts =
          Inr (replicate (length ts) ?y0)"
    by (rule keeps_equilibriumD [OF eq]) (simp add: truediv_def nz)
  then show "SEIRDS_model odeint N 0 0 R0 D0 beta gamma delta sigma ts =
               Inr (replicate (length ts) ?y0)"
    by (simp add: SEIRDS_model_def)
qed

theorem disease_free_witness:
  "(0::real) < 1000 \<and> keeps_equilibrium euler_odeint \<and>
   SIR_derivatives [900, 0, 100] 3 1000 (1/5) (1/10) = Inr [0, 0, 0] \<and>
   SEIRDS_derivatives [900, 0, 0, 100, 7] 3 1000 (1/5) (1/10) (5/1000) (4/10) =
     Inr [0, 0, 0, 0, 0] \<and>
   SIR_model euler_odeint 1000 900 0 100 (1/5) (1/10) [0, 1, 2] =
     Inr [[900, 0, 100], [900, 0, 100], [900, 0, 100]] \<and>
   SEIRDS_model euler_odeint 1000 0 0 100 7 (1/5) (1/10) (5/1000) (4/10) [0, 1, 2] =
     Inr [[893, 0, 0, 100, 7], [893, 0, 0, 100, 7], [893, 0, 0, 100, 7]]"
  using disease_free [where N = 1000 and S = 900 and R = 100 and D = 7 and t = 3
      and beta = "1/5" and gamma = "1/10" and delta = "5/1000" and sigma = "4/10"
      and odeint = euler_odeint and ?S0.0 = 900 and ?R0.0 = 100 and ?D0.0 = 7
      and ts = "[0, 1, 2]"]
    euler_keeps_equilibrium
  by (simp add: numeral_3_eq_3)

end
